theory Spec2Isabelle
  imports Complex_Main "HOL-Library.AList"
begin

section \<open>Learning paths: the endpoints of \<open>learning_path.py\<close>\<close>

text \<open>
  A shallow embedding of \<open>backend/app/api/v1/endpoints/learning_path.py\<close>.
  The relational store behind the SQLAlchemy session is a record of four tables, each a
  list of rows in storage order; a query with \<open>.first()\<close> is \<open>find\<close> on the table.
  An endpoint that writes takes the store and returns its answer together with the store
  it leaves behind; an endpoint that only reads returns its answer. A commit stores the
  fields of the loaded row as the endpoint assigned them. An \<open>HTTPException\<close> with
  status 404 is the error value \<open>NotFound\<close>, any other exception (status 500) is
  \<open>Internal\<close>. The endpoint \<open>create_learning_path\<close> takes no part in the properties
  below and is not modelled.

  Python's \<open>float\<close> progress values are exact rationals here. Python text is the list
  of the bytes of its UTF-8 encoding.
\<close>

subsection \<open>Python values\<close>

type_synonym timestamp = string

datatype json =
    JNull
  | JBool bool
  | JNum rat
  | JStr string
  | JArr "json list"
  | JObj "(string \<times> json) list"

datatype error = NotFound | Internal

text \<open>The values that are compared with the keys of a dictionary.\<close>

datatype pyval = PyInt int | PyStr string

text \<open>Python's \<open>==\<close>: an \<open>int\<close> and a \<open>str\<close> are never equal.\<close>

fun py_eq :: "pyval \<Rightarrow> pyval \<Rightarrow> bool" where
  "py_eq (PyInt a) (PyInt b) = (a = b)"
| "py_eq (PyStr a) (PyStr b) = (a = b)"
| "py_eq _ _ = False"

text \<open>
  \<open>x in d\<close> for a dictionary \<open>d\<close> whose keys are strings, as the keys of a JSON
  column are: some key is equal to \<open>x\<close>.
\<close>

definition py_in :: "pyval \<Rightarrow> (string \<times> 'v) list \<Rightarrow> bool" where
  "py_in x d = list_ex (\<lambda>kv. py_eq x (PyStr (fst kv))) d"

text \<open>\<open>str(n)\<close> for an integer: its decimal digits, with a minus sign below zero.\<close>

definition digit_char :: "nat \<Rightarrow> char" where
  "digit_char d = char_of (48 + d)"

function str_nat :: "nat \<Rightarrow> string" where
  "str_nat n = (if n < 10 then [digit_char n] else str_nat (n div 10) @ [digit_char (n mod 10)])"
  by pat_completeness auto
termination
  by (relation "measure (\<lambda>n. n)") auto

declare str_nat.simps [simp del]

definition str_int :: "int \<Rightarrow> string" where
  "str_int i = (if i < 0 then CHR ''-'' # str_nat (nat (- i)) else str_nat (nat i))"

text \<open>The UTF-8 bytes of a code point, and of a text given by its code points.\<close>

definition utf8_char :: "nat \<Rightarrow> string" where
  "utf8_char c =
     (if c < 0x80 then [char_of c]
      else if c < 0x800 then [char_of (0xC0 + c div 64), char_of (0x80 + c mod 64)]
      else if c < 0x10000 then
        [char_of (0xE0 + c div 4096), char_of (0x80 + (c div 64) mod 64),
         char_of (0x80 + c mod 64)]
      else
        [char_of (0xF0 + c div 262144), char_of (0x80 + (c div 4096) mod 64),
         char_of (0x80 + (c div 64) mod 64), char_of (0x80 + c mod 64)])"

definition utf8 :: "nat list \<Rightarrow> string" where
  "utf8 cs = concat (map utf8_char cs)"

subsection \<open>The store\<close>

record learning_content =
  lc_id :: int
  lc_title :: string
  lc_description :: string
  lc_content_type :: string
  lc_subject :: string
  lc_difficulty_level :: int

record learning_path =
  lp_id :: int
  lp_title :: string
  lp_description :: string
  lp_subject :: string
  lp_difficulty_level :: int
  lp_estimated_hours :: "int option"
  lp_path_metadata :: json
  lp_created_by :: "int option"
  lp_created_at :: timestamp
  lp_contents :: "learning_content list"

text \<open>
  \<open>content_progress\<close> is a JSON column: \<open>None\<close> is SQL NULL, otherwise a dictionary
  from the decimal text of a content id to a progress value, in insertion order.
\<close>

record path_enrollment =
  pe_id :: int
  pe_user_id :: int
  pe_path_id :: int
  pe_progress :: rat
  pe_content_progress :: "(string \<times> rat) list option"
  pe_personalization_settings :: json
  pe_enrolled_at :: timestamp
  pe_last_activity_at :: timestamp

text \<open>Of a user only the id is used.\<close>

record db =
  db_users :: "int list"
  db_paths :: "learning_path list"
  db_contents :: "learning_content list"
  db_enrollments :: "path_enrollment list"

definition find_user :: "db \<Rightarrow> int \<Rightarrow> int option" where
  "find_user s user_id = find (\<lambda>u. u = user_id) (db_users s)"

definition find_path :: "db \<Rightarrow> int \<Rightarrow> learning_path option" where
  "find_path s path_id = find (\<lambda>p. lp_id p = path_id) (db_paths s)"

definition find_content :: "db \<Rightarrow> int \<Rightarrow> learning_content option" where
  "find_content s content_id = find (\<lambda>c. lc_id c = content_id) (db_contents s)"

definition is_enrollment_of :: "int \<Rightarrow> int \<Rightarrow> path_enrollment \<Rightarrow> bool" where
  "is_enrollment_of user_id path_id e \<longleftrightarrow> pe_user_id e = user_id \<and> pe_path_id e = path_id"

definition find_enrollment :: "db \<Rightarrow> int \<Rightarrow> int \<Rightarrow> path_enrollment option" where
  "find_enrollment s user_id path_id = find (is_enrollment_of user_id path_id) (db_enrollments s)"

text \<open>\<open>d or {}\<close> for a nullable dictionary.\<close>

definition or_empty :: "(string \<times> 'v) list option \<Rightarrow> (string \<times> 'v) list" where
  "or_empty d = (case d of None \<Rightarrow> [] | Some kvs \<Rightarrow> kvs)"

text \<open>Writing a loaded row back: the first row the query matched is replaced.\<close>

fun replace_first :: "('a \<Rightarrow> bool) \<Rightarrow> 'a \<Rightarrow> 'a list \<Rightarrow> 'a list" where
  "replace_first P y [] = []"
| "replace_first P y (x # xs) = (if P x then y # xs else x # replace_first P y xs)"

subsection \<open>\<open>update_path_progress\<close>\<close>

record progress_data =
  pd_content_id :: "int option"
  pd_progress :: "rat option"

record progress_response =
  pr_id :: int
  pr_user_id :: int
  pr_path_id :: int
  pr_progress :: rat
  pr_content_progress :: "(string \<times> rat) list"
  pr_last_activity_at :: timestamp

definition progress_snapshot :: "path_enrollment \<Rightarrow> progress_response" where
  "progress_snapshot e =
     \<lparr>pr_id = pe_id e, pr_user_id = pe_user_id e, pr_path_id = pe_path_id e,
      pr_progress = pe_progress e, pr_content_progress = or_empty (pe_content_progress e),
      pr_last_activity_at = pe_last_activity_at e\<rparr>"

text \<open>
  Modelled from the spec: the column declaration of \<open>PathEnrollment.last_activity_at\<close>
  in \<open>app/models/learning_path.py\<close>, which is not among the sources. The endpoint never
  assigns the field; the specification of the progress tracker says
  ``Update \<open>last_activity_at\<close>'', so a committed change of an enrollment stamps the row with
  the time of the commit.
\<close>

definition touch_last_activity :: "timestamp \<Rightarrow> path_enrollment \<Rightarrow> path_enrollment" where
  "touch_last_activity now e = e\<lparr>pe_last_activity_at := now\<rparr>"

text \<open>
  The recomputation of the aggregate, behind the guard \<open>path_id in content_progress\<close>.
  Where the guard holds the dictionary has a key, so the division is by a positive length.
\<close>

definition recompute_progress :: "int \<Rightarrow> path_enrollment \<Rightarrow> path_enrollment" where
  "recompute_progress path_id e =
     (let d = or_empty (pe_content_progress e) in
      if py_in (PyInt path_id) d
      then e\<lparr>pe_progress := min 100 (sum_list (map snd d) / of_nat (length d))\<rparr>
      else e)"

text \<open>The body of the branch \<open>if content_id:\<close>, after the content was found.\<close>

definition set_content_progress ::
  "timestamp \<Rightarrow> int \<Rightarrow> int \<Rightarrow> rat \<Rightarrow> path_enrollment \<Rightarrow> path_enrollment" where
  "set_content_progress now path_id content_id progress e =
     (let content_progress = or_empty (pe_content_progress e);
          content_progress = AList.update (str_int content_id) progress content_progress;
          e = e\<lparr>pe_content_progress := Some content_progress\<rparr>;
          e = recompute_progress path_id e
      in touch_last_activity now e)"

definition update_path_progress ::
  "timestamp \<Rightarrow> db \<Rightarrow> int \<Rightarrow> progress_data \<Rightarrow> int \<Rightarrow> (error + progress_response) \<times> db" where
  "update_path_progress now s path_id data user_id =
     (case find_enrollment s user_id path_id of
        None \<Rightarrow> (Inl NotFound, s)
      | Some enrollment \<Rightarrow>
          let progress = (case pd_progress data of None \<Rightarrow> 0 | Some p \<Rightarrow> p) in
          (case pd_content_id data of
             None \<Rightarrow> (Inr (progress_snapshot enrollment), s)
           | Some content_id \<Rightarrow>
               if content_id = 0 then (Inr (progress_snapshot enrollment), s)
               else
                 (case find_content s content_id of
                    None \<Rightarrow> (Inl NotFound, s)
                  | Some content \<Rightarrow>
                      let e = set_content_progress now path_id content_id progress enrollment
                      in (Inr (progress_snapshot e),
                          s\<lparr>db_enrollments :=
                               replace_first (is_enrollment_of user_id path_id) e
                                 (db_enrollments s)\<rparr>))))"

subsection \<open>\<open>enroll_in_learning_path\<close>\<close>

text \<open>A field of the request body is \<open>None\<close> when the key is absent.\<close>

record enrollment_data =
  ed_user_id :: "int option"
  ed_path_id :: "int option"
  ed_personalization_settings :: "json option"

record enrollment_response =
  er_id :: int
  er_user_id :: int
  er_path_id :: int
  er_progress :: rat
  er_enrolled_at :: timestamp
  er_content_progress :: "(string \<times> rat) list"

definition enrollment_snapshot :: "path_enrollment \<Rightarrow> enrollment_response" where
  "enrollment_snapshot e =
     \<lparr>er_id = pe_id e, er_user_id = pe_user_id e, er_path_id = pe_path_id e,
      er_progress = pe_progress e, er_enrolled_at = pe_enrolled_at e,
      er_content_progress = or_empty (pe_content_progress e)\<rparr>"

text \<open>
  What the store assigns to a new enrollment row on insert (the primary key and the column
  defaults of \<open>PathEnrollment\<close>), read back by \<open>db.refresh\<close>. The declaration of
  the table is not among the sources, so the values are a parameter of the endpoint.
\<close>

record row_defaults =
  rd_id :: int
  rd_enrolled_at :: timestamp
  rd_last_activity_at :: timestamp

definition new_enrollment :: "row_defaults \<Rightarrow> int \<Rightarrow> int \<Rightarrow> json \<Rightarrow> path_enrollment" where
  "new_enrollment rd user_id path_id personalization_settings =
     \<lparr>pe_id = rd_id rd, pe_user_id = user_id, pe_path_id = path_id, pe_progress = 0,
      pe_content_progress = Some [], pe_personalization_settings = personalization_settings,
      pe_enrolled_at = rd_enrolled_at rd, pe_last_activity_at = rd_last_activity_at rd\<rparr>"

definition enroll_in_learning_path ::
  "row_defaults \<Rightarrow> db \<Rightarrow> enrollment_data \<Rightarrow> (error + enrollment_response) \<times> db" where
  "enroll_in_learning_path rd s data =
     (case ed_user_id data of
        None \<Rightarrow> (Inl Internal, s)
      | Some user_id \<Rightarrow>
     (case ed_path_id data of
        None \<Rightarrow> (Inl Internal, s)
      | Some path_id \<Rightarrow>
     (case find_user s user_id of
        None \<Rightarrow> (Inl NotFound, s)
      | Some user \<Rightarrow>
     (case find_path s path_id of
        None \<Rightarrow> (Inl NotFound, s)
      | Some path \<Rightarrow>
     (case find_enrollment s user_id path_id of
        Some existing_enrollment \<Rightarrow> (Inr (enrollment_snapshot existing_enrollment), s)
      | None \<Rightarrow>
          let personalization_settings =
                (case ed_personalization_settings data of None \<Rightarrow> JObj [] | Some v \<Rightarrow> v);
              db_enrollment = new_enrollment rd user_id path_id personalization_settings
          in (Inr (enrollment_snapshot db_enrollment),
              s\<lparr>db_enrollments := db_enrollments s @ [db_enrollment]\<rparr>))))))"

subsection \<open>\<open>get_learning_path\<close>\<close>

record content_summary =
  cs_id :: int
  cs_title :: string
  cs_description :: string
  cs_content_type :: string
  cs_subject :: string
  cs_difficulty_level :: int

record user_progress =
  up_overall_progress :: rat
  up_content_progress :: "(string \<times> rat) list"
  up_enrolled_at :: timestamp

text \<open>
  The answer of \<open>get_learning_path\<close>. Only the mock has the key \<open>created_at\<close>, and
  its \<open>estimated_hours\<close> is always present.
\<close>

record path_detail =
  det_id :: int
  det_title :: string
  det_description :: string
  det_subject :: string
  det_difficulty_level :: int
  det_estimated_hours :: "int option"
  det_created_at :: "timestamp option"
  det_contents :: "content_summary list"
  det_metadata :: json
  det_user_progress :: "user_progress option"

text \<open>\<open>a if path_id == 1 else b if path_id == 2 else c\<close>\<close>

definition by_path_id :: "int \<Rightarrow> 'a \<Rightarrow> 'a \<Rightarrow> 'a \<Rightarrow> 'a" where
  "by_path_id path_id a b c = (if path_id = 1 then a else if path_id = 2 then b else c)"

definition mock_subject :: "int \<Rightarrow> string" where
  "mock_subject path_id = by_path_id path_id ''programming'' ''data_science'' ''other''"

definition mock_contents :: "int \<Rightarrow> content_summary list" where
  "mock_contents path_id =
     [\<lparr>cs_id = 101,
       cs_title = by_path_id path_id
         (''Python'' @ utf8 [0x57FA, 0x7840, 0x8BED, 0x6CD5])
         (utf8 [0x6570, 0x636E, 0x5206, 0x6790, 0x6982, 0x8FF0])
         (utf8 [0x57FA, 0x7840, 0x6982, 0x5FF5]),
       cs_description = by_path_id path_id
         (utf8 [0x5B66, 0x4E60] @ ''Python''
            @ utf8 [0x7684, 0x57FA, 0x672C, 0x8BED, 0x6CD5, 0x548C, 0x6570, 0x636E, 0x7C7B, 0x578B])
         (utf8 [0x4E86, 0x89E3, 0x6570, 0x636E, 0x5206, 0x6790, 0x7684, 0x57FA, 0x672C, 0x6982,
                0x5FF5, 0x548C, 0x6D41, 0x7A0B])
         (utf8 [0x5B66, 0x4E60, 0x57FA, 0x7840, 0x77E5, 0x8BC6]),
       cs_content_type = ''video'',
       cs_subject = mock_subject path_id,
       cs_difficulty_level = 1\<rparr>,
      \<lparr>cs_id = 102,
       cs_title = by_path_id path_id
         (''Python'' @ utf8 [0x51FD, 0x6570, 0x548C, 0x6A21, 0x5757])
         (utf8 [0x6570, 0x636E, 0x6E05, 0x6D17, 0x4E0E, 0x9884, 0x5904, 0x7406])
         (utf8 [0x8FDB, 0x9636, 0x77E5, 0x8BC6]),
       cs_description = by_path_id path_id
         (utf8 [0x5B66, 0x4E60, 0x5982, 0x4F55, 0x5B9A, 0x4E49, 0x548C, 0x4F7F, 0x7528] @ ''Python''
            @ utf8 [0x51FD, 0x6570, 0x548C, 0x6A21, 0x5757])
         (utf8 [0x5B66, 0x4E60, 0x6570, 0x636E, 0x6E05, 0x6D17, 0x548C, 0x9884, 0x5904, 0x7406,
                0x7684, 0x57FA, 0x672C, 0x65B9, 0x6CD5])
         (utf8 [0x6DF1, 0x5165, 0x5B66, 0x4E60, 0x6838, 0x5FC3, 0x6982, 0x5FF5]),
       cs_content_type = ''interactive'',
       cs_subject = mock_subject path_id,
       cs_difficulty_level = 2\<rparr>]"

definition mock_created_at :: timestamp where
  "mock_created_at = ''2025-03-28T20:00:00''"

definition mock_user_progress :: user_progress where
  "mock_user_progress =
     \<lparr>up_overall_progress = 0, up_content_progress = [], up_enrolled_at = mock_created_at\<rparr>"

text \<open>\<open>if user_id\<close>: neither \<open>None\<close> nor zero.\<close>

definition truthy :: "int option \<Rightarrow> bool" where
  "truthy v = (case v of None \<Rightarrow> False | Some n \<Rightarrow> n \<noteq> 0)"

definition mock_path :: "int \<Rightarrow> int option \<Rightarrow> path_detail" where
  "mock_path path_id user_id =
     \<lparr>det_id = path_id,
      det_title = by_path_id path_id
        (''Python'' @ utf8 [0x7F16, 0x7A0B, 0x57FA, 0x7840])
        (utf8 [0x6570, 0x636E, 0x5206, 0x6790, 0x5165, 0x95E8])
        (utf8 [0x6D4B, 0x8BD5, 0x5B66, 0x4E60, 0x8DEF, 0x5F84] @ '' '' @ str_int path_id),
      det_description = by_path_id path_id
        (utf8 [0x4ECE, 0x96F6, 0x5F00, 0x59CB, 0x5B66, 0x4E60] @ ''Python'' @ utf8 [0x7F16, 0x7A0B])
        (utf8 [0x638C, 0x63E1, 0x6570, 0x636E, 0x5206, 0x6790, 0x57FA, 0x7840, 0x6280, 0x80FD])
        (utf8 [0x8FD9, 0x662F, 0x4E00, 0x4E2A, 0x6D4B, 0x8BD5, 0x5B66, 0x4E60, 0x8DEF, 0x5F84]
           @ '' '' @ str_int path_id),
      det_subject = mock_subject path_id,
      det_difficulty_level = 2,
      det_estimated_hours = Some 25,
      det_created_at = Some mock_created_at,
      det_contents = mock_contents path_id,
      det_metadata =
        JObj [(''goals'',
               JArr [JStr (utf8 [0x638C, 0x63E1, 0x57FA, 0x7840, 0x8BED, 0x6CD5]),
                     JStr (utf8 [0x7406, 0x89E3, 0x6838, 0x5FC3, 0x6982, 0x5FF5])]),
              (''prerequisites'', JArr []),
              (''difficulty'', JStr ''beginner'')],
      det_user_progress = (if truthy user_id then Some mock_user_progress else None)\<rparr>"

definition summary_of :: "learning_content \<Rightarrow> content_summary" where
  "summary_of content =
     \<lparr>cs_id = lc_id content, cs_title = lc_title content,
      cs_description = lc_description content, cs_content_type = lc_content_type content,
      cs_subject = lc_subject content, cs_difficulty_level = lc_difficulty_level content\<rparr>"

definition progress_of :: "path_enrollment \<Rightarrow> user_progress" where
  "progress_of enrollment =
     \<lparr>up_overall_progress = pe_progress enrollment,
      up_content_progress = or_empty (pe_content_progress enrollment),
      up_enrolled_at = pe_enrolled_at enrollment\<rparr>"

definition get_learning_path :: "db \<Rightarrow> int \<Rightarrow> int option \<Rightarrow> error + path_detail" where
  "get_learning_path s path_id user_id =
     (case find_path s path_id of
        None \<Rightarrow> Inr (mock_path path_id user_id)
      | Some path \<Rightarrow>
          let contents = map summary_of (lp_contents path);
              user_progress =
                (case user_id of
                   None \<Rightarrow> None
                 | Some uid \<Rightarrow>
                     if uid = 0 then None
                     else (case find_enrollment s uid path_id of
                             None \<Rightarrow> None
                           | Some enrollment \<Rightarrow> Some (progress_of enrollment)))
          in Inr \<lparr>det_id = lp_id path, det_title = lp_title path,
                  det_description = lp_description path, det_subject = lp_subject path,
                  det_difficulty_level = lp_difficulty_level path,
                  det_estimated_hours = lp_estimated_hours path,
                  det_created_at = None,
                  det_contents = contents,
                  det_metadata = lp_path_metadata path,
                  det_user_progress = user_progress\<rparr>)"

subsection \<open>\<open>get_enrolled_learning_paths\<close>\<close>

record enrolled_entry =
  ee_id :: int
  ee_title :: string
  ee_description :: string
  ee_subject :: string
  ee_difficulty_level :: int
  ee_estimated_hours :: "int option"
  ee_created_at :: timestamp
  ee_content_count :: nat
  ee_progress :: rat

text \<open>\<open>len(path.contents) if path.contents else 0\<close>\<close>

definition content_count :: "learning_path \<Rightarrow> nat" where
  "content_count path = (if lp_contents path = [] then 0 else length (lp_contents path))"

definition enrolled_entry_of :: "learning_path \<Rightarrow> path_enrollment \<Rightarrow> enrolled_entry" where
  "enrolled_entry_of path enrollment =
     \<lparr>ee_id = lp_id path, ee_title = lp_title path, ee_description = lp_description path,
      ee_subject = lp_subject path, ee_difficulty_level = lp_difficulty_level path,
      ee_estimated_hours = lp_estimated_hours path, ee_created_at = lp_created_at path,
      ee_content_count = content_count path, ee_progress = pe_progress enrollment\<rparr>"

text \<open>The loop over the enrollments, with the list \<open>paths\<close> built so far.\<close>

fun enrolled_loop :: "db \<Rightarrow> enrolled_entry list \<Rightarrow> path_enrollment list \<Rightarrow> enrolled_entry list" where
  "enrolled_loop s paths [] = paths"
| "enrolled_loop s paths (enrollment # rest) =
     (case find_path s (pe_path_id enrollment) of
        None \<Rightarrow> enrolled_loop s paths rest
      | Some path \<Rightarrow> enrolled_loop s (paths @ [enrolled_entry_of path enrollment]) rest)"

definition enrollments_of :: "db \<Rightarrow> int \<Rightarrow> path_enrollment list" where
  "enrollments_of s user_id = filter (\<lambda>e. pe_user_id e = user_id) (db_enrollments s)"

definition get_enrolled_learning_paths :: "db \<Rightarrow> int \<Rightarrow> error + enrolled_entry list" where
  "get_enrolled_learning_paths s user_id =
     (let enrollments = enrollments_of s user_id in
      if enrollments = [] then Inr []
      else Inr (enrolled_loop s [] enrollments))"

subsection \<open>\<open>get_recommended_learning_paths\<close>\<close>

record recommended_entry =
  re_id :: int
  re_title :: string
  re_description :: string
  re_subject :: string
  re_difficulty_level :: int
  re_estimated_hours :: "int option"
  re_created_at :: timestamp
  re_content_count :: nat

definition recommended_entry_of :: "learning_path \<Rightarrow> recommended_entry" where
  "recommended_entry_of path =
     \<lparr>re_id = lp_id path, re_title = lp_title path, re_description = lp_description path,
      re_subject = lp_subject path, re_difficulty_level = lp_difficulty_level path,
      re_estimated_hours = lp_estimated_hours path, re_created_at = lp_created_at path,
      re_content_count = content_count path\<rparr>"

definition enrolled_path_ids :: "db \<Rightarrow> int \<Rightarrow> int list" where
  "enrolled_path_ids s user_id = map pe_path_id (enrollments_of s user_id)"

definition get_recommended_learning_paths :: "db \<Rightarrow> int \<Rightarrow> error + recommended_entry list" where
  "get_recommended_learning_paths s user_id =
     (case find_user s user_id of
        None \<Rightarrow> Inl NotFound
      | Some user \<Rightarrow>
          let ids = enrolled_path_ids s user_id;
              query = (if ids \<noteq> [] then filter (\<lambda>p. lp_id p \<notin> set ids) (db_paths s)
                       else db_paths s);
              paths = take 5 query
          in Inr (map recommended_entry_of paths))"

subsection \<open>Sample stores\<close>

definition content_a :: learning_content where
  "content_a = \<lparr>lc_id = 1, lc_title = ''A'', lc_description = ''first'', lc_content_type = ''video'',
     lc_subject = ''programming'', lc_difficulty_level = 1\<rparr>"

definition content_b :: learning_content where
  "content_b = content_a\<lparr>lc_id := 2, lc_title := ''B''\<rparr>"

definition path_one :: learning_path where
  "path_one = \<lparr>lp_id = 1, lp_title = ''Basics'', lp_description = '''', lp_subject = ''programming'',
     lp_difficulty_level = 2, lp_estimated_hours = None, lp_path_metadata = JObj [],
     lp_created_by = None, lp_created_at = ''t0'', lp_contents = [content_a, content_b]\<rparr>"

definition enrollment_one :: path_enrollment where
  "enrollment_one = \<lparr>pe_id = 7, pe_user_id = 1, pe_path_id = 1, pe_progress = 0,
     pe_content_progress = Some [], pe_personalization_settings = JObj [],
     pe_enrolled_at = ''t0'', pe_last_activity_at = ''t0''\<rparr>"

definition demo_store :: db where
  "demo_store = \<lparr>db_users = [1], db_paths = [path_one], db_contents = [content_a, content_b],
     db_enrollments = [enrollment_one]\<rparr>"

definition orphan_enrollment :: path_enrollment where
  "orphan_enrollment = enrollment_one\<lparr>pe_id := 8, pe_path_id := 999, pe_progress := 30,
     pe_content_progress := Some [(''101'', 30)]\<rparr>"

definition orphan_store :: db where
  "orphan_store = demo_store\<lparr>db_enrollments := [orphan_enrollment, enrollment_one]\<rparr>"

definition content_zero :: learning_content where
  "content_zero = content_a\<lparr>lc_id := 0\<rparr>"

definition zero_store :: db where
  "zero_store = demo_store\<lparr>db_contents := [content_zero, content_a]\<rparr>"

definition demo_defaults :: row_defaults where
  "demo_defaults = \<lparr>rd_id = 8, rd_enrolled_at = ''t1'', rd_last_activity_at = ''t1''\<rparr>"

definition demo_request :: enrollment_data where
  "demo_request = \<lparr>ed_user_id = Some 1, ed_path_id = Some 1,
     ed_personalization_settings = Some (JObj [(''pace'', JStr ''slow'')])\<rparr>"

definition empty_store :: db where
  "empty_store = demo_store\<lparr>db_enrollments := []\<rparr>"

definition empty_paths :: db where
  "empty_paths = demo_store\<lparr>db_paths := []\<rparr>"

definition catalog_store :: db where
  "catalog_store = demo_store\<lparr>db_paths := map (\<lambda>i. path_one\<lparr>lp_id := i\<rparr>) [1, 2, 3, 4, 5, 6, 7]\<rparr>"

section \<open>Properties\<close>

subsection \<open>Auxiliary facts\<close>

lemma py_in_int: "py_in (PyInt i) d = False"
  by (simp add: py_in_def list_ex_iff)

lemma recompute_progress_same: "recompute_progress path_id e = e"
  by (simp add: recompute_progress_def py_in_int)

lemma find_replace_first:
  "find P xs = Some x \<Longrightarrow> P y \<Longrightarrow> find P (replace_first P y xs) = Some y"
  by (induction xs) (auto split: if_splits)

lemma find_append_new: "find P xs = None \<Longrightarrow> P y \<Longrightarrow> find P (xs @ [y]) = Some y"
  by (induction xs) (auto split: if_splits)

lemma set_content_progress_fields:
  "pe_progress (set_content_progress now p c v e) = pe_progress e"
  "pe_last_activity_at (set_content_progress now p c v e) = now"
  "pe_user_id (set_content_progress now p c v e) = pe_user_id e"
  "pe_path_id (set_content_progress now p c v e) = pe_path_id e"
  "pe_content_progress (set_content_progress now p c v e) =
     Some (AList.update (str_int c) v (or_empty (pe_content_progress e)))"
  by (simp_all add: set_content_progress_def recompute_progress_same touch_last_activity_def Let_def)

lemma set_content_progress_keeps:
  "pe_id (set_content_progress now p c v e) = pe_id e"
  "pe_enrolled_at (set_content_progress now p c v e) = pe_enrolled_at e"
  "pe_personalization_settings (set_content_progress now p c v e) = pe_personalization_settings e"
  by (simp_all add: set_content_progress_def recompute_progress_same touch_last_activity_def Let_def)

lemma find_enrollment_Some:
  "find_enrollment s u p = Some e \<Longrightarrow> pe_user_id e = u \<and> pe_path_id e = p"
  by (auto simp: find_enrollment_def is_enrollment_of_def find_Some_iff)

lemma find_user_None_iff: "find_user s u = None \<longleftrightarrow> u \<notin> set (db_users s)"
  by (auto simp: find_user_def find_None_iff)

lemma enrolled_loop_map_filter:
  "enrolled_loop s acc es =
     acc @ List.map_filter
             (\<lambda>e. map_option (\<lambda>p. enrolled_entry_of p e) (find_path s (pe_path_id e))) es"
  by (induction es arbitrary: acc) (auto simp: List.map_filter_simps split: option.splits)

text \<open>
  An update never changes the aggregate: the answer carries the progress the enrollment
  had before the call.
\<close>

lemma update_path_progress_keeps_aggregate:
  assumes "find_enrollment s u p = Some e"
    and "update_path_progress now s p data u = (Inr r, s')"
  shows "pr_progress r = pe_progress e"
  using assms
  by (auto simp: update_path_progress_def progress_snapshot_def set_content_progress_fields Let_def
      split: option.splits if_splits)

subsection \<open>Progress updates\<close>

text \<open>
  C1. The claim: after an update of the progress of an existing content, the aggregate
  progress of the enrollment is the arithmetic mean of the values of \<open>content_progress\<close>,
  capped at 100, so that updates \<open>{1: 40, 2: 60}\<close> leave the aggregate 50. The code
  does not do this: the guard of the recomputation looks the integer \<open>path_id\<close> up among
  keys that are strings, so the recomputation is never run. After the two updates the
  dictionary holds 40 and 60, whose capped mean is 50, and the stored and the returned
  aggregate are still 0.
\<close>

theorem update_path_progress_mean_not_stored:
  "(let first = update_path_progress ''t1'' demo_store 1
                  \<lparr>pd_content_id = Some 1, pd_progress = Some 40\<rparr> 1;
        second = update_path_progress ''t2'' (snd first) 1
                  \<lparr>pd_content_id = Some 2, pd_progress = Some 60\<rparr> 1
    in map pe_content_progress (db_enrollments (snd second)) = [Some [(''1'', 40), (''2'', 60)]]
       \<and> map pe_progress (db_enrollments (snd second)) = [0]
       \<and> map_sum id pr_progress (fst second) = Inr 0
       \<and> min 100 ((40 + 60) / 2) = (50 :: rat))"
  by code_simp

text \<open>
  C3. The claim: an update fails with \<open>NotFound\<close> when the user has no enrollment in the
  path, and, when the enrollment exists and the content id of the request matches no
  content, fails with \<open>NotFound\<close> and leaves the enrollment as it was. The second part
  fails for the content id 0: the branch that checks the content is entered only for a
  content id that is neither absent nor zero, so the call succeeds and answers the current
  state.
\<close>

theorem update_path_progress_zero_content_not_rejected:
  "find_enrollment demo_store 1 1 = Some enrollment_one
   \<and> find_content demo_store 0 = None
   \<and> update_path_progress ''t1'' demo_store 1 \<lparr>pd_content_id = Some 0, pd_progress = Some 40\<rparr> 1
       = (Inr (progress_snapshot enrollment_one), demo_store)
   \<and> fst (update_path_progress ''t1'' demo_store 1
              \<lparr>pd_content_id = Some 0, pd_progress = Some 40\<rparr> 1) \<noteq> Inl NotFound"
  by code_simp

text \<open>
  C3, amended: an update fails with \<open>NotFound\<close> and leaves the store unchanged when the
  user has no enrollment in the path, and also when the enrollment exists and the request
  carries a content id other than 0 that matches no content.
\<close>

theorem update_path_progress_not_found:
  "(find_enrollment s user_id path_id = None
      \<longrightarrow> update_path_progress now s path_id data user_id = (Inl NotFound, s))
   \<and> (find_enrollment s user_id path_id \<noteq> None \<and> pd_content_id data = Some c \<and> c \<noteq> 0
        \<and> find_content s c = None
      \<longrightarrow> update_path_progress now s path_id data user_id = (Inl NotFound, s))"
  by (auto simp: update_path_progress_def)

text \<open>
  Instances: user 2 has no enrollment; user 1 is enrolled and no content has id 5.
\<close>

theorem update_path_progress_not_found_witness:
  "find_enrollment demo_store 2 1 = None
   \<and> update_path_progress ''t1'' demo_store 1 \<lparr>pd_content_id = Some 1, pd_progress = Some 40\<rparr> 2
       = (Inl NotFound, demo_store)
   \<and> find_enrollment demo_store 1 1 \<noteq> None \<and> find_content demo_store 5 = None
   \<and> update_path_progress ''t1'' demo_store 1 \<lparr>pd_content_id = Some 5, pd_progress = Some 40\<rparr> 1
       = (Inl NotFound, demo_store)"
proof -
  have a: "find_enrollment demo_store 2 1 = None"
    by code_simp
  have b: "find_enrollment demo_store 1 1 \<noteq> None"
    by code_simp
  have c: "find_content demo_store 5 = None"
    by code_simp
  from a b c
    update_path_progress_not_found [of demo_store 2 1 "''t1''"
      "\<lparr>pd_content_id = Some 1, pd_progress = Some 40\<rparr>" 1]
    update_path_progress_not_found [of demo_store 1 1 "''t1''"
      "\<lparr>pd_content_id = Some 5, pd_progress = Some 40\<rparr>" 5]
  show ?thesis by simp
qed

text \<open>
  C7. The claim: for every enrollment and every existing content id, an update with that
  content id updates \<open>last_activity_at\<close>. It fails where a content has the id 0: the
  request is then handled like one without a content id, nothing is committed, and the
  enrollment keeps the time of its last activity.
\<close>

theorem update_path_progress_zero_content_untouched:
  "find_content zero_store 0 = Some content_zero
   \<and> find_enrollment zero_store 1 1 = Some enrollment_one
   \<and> pe_last_activity_at enrollment_one = ''t0''
   \<and> update_path_progress ''t1'' zero_store 1 \<lparr>pd_content_id = Some 0, pd_progress = Some 40\<rparr> 1
       = (Inr (progress_snapshot enrollment_one), zero_store)
   \<and> pr_last_activity_at (progress_snapshot enrollment_one) \<noteq> ''t1''"
  by code_simp

text \<open>
  C7, amended: for every enrollment and every existing content id other than 0, an update
  with that content id succeeds, and the time of the commit is the \<open>last_activity_at\<close>
  of the answer and of the stored enrollment.
\<close>

theorem update_path_progress_last_activity:
  assumes "find_enrollment s u p = Some e" and "pd_content_id data = Some c" and "c \<noteq> 0"
    and "find_content s c \<noteq> None"
  shows "\<exists>r s' e'. update_path_progress now s p data u = (Inr r, s')
           \<and> pr_last_activity_at r = now
           \<and> find_enrollment s' u p = Some e'
           \<and> pe_id e' = pe_id e
           \<and> pe_last_activity_at e' = now"
proof -
  let ?v = "case pd_progress data of None \<Rightarrow> 0 | Some x \<Rightarrow> x"
  let ?e = "set_content_progress now p c ?v e"
  let ?s = "s\<lparr>db_enrollments := replace_first (is_enrollment_of u p) ?e (db_enrollments s)\<rparr>"
  from assms have run: "update_path_progress now s p data u = (Inr (progress_snapshot ?e), ?s)"
    by (auto simp: update_path_progress_def Let_def)
  from assms(1) have "is_enrollment_of u p ?e"
    by (simp add: is_enrollment_of_def set_content_progress_fields find_enrollment_Some)
  with assms(1) have "find_enrollment ?s u p = Some ?e"
    by (simp add: find_enrollment_def find_replace_first)
  with run show ?thesis
    by (simp add: progress_snapshot_def set_content_progress_fields set_content_progress_keeps)
qed

text \<open>
  An instance: user 1 reports progress 40 on content 1 at time \<open>t1\<close>.
\<close>

theorem update_path_progress_last_activity_witness:
  "find_enrollment demo_store 1 1 = Some enrollment_one
   \<and> find_content demo_store 1 \<noteq> None
   \<and> (\<exists>r s' e'. update_path_progress ''t1'' demo_store 1
                    \<lparr>pd_content_id = Some 1, pd_progress = Some 40\<rparr> 1 = (Inr r, s')
         \<and> pr_last_activity_at r = ''t1''
         \<and> find_enrollment s' 1 1 = Some e'
         \<and> pe_id e' = pe_id enrollment_one
         \<and> pe_last_activity_at e' = ''t1'')"
proof -
  have a: "find_enrollment demo_store 1 1 = Some enrollment_one"
    by code_simp
  have b: "pd_content_id \<lparr>pd_content_id = Some 1, pd_progress = Some 40\<rparr> = Some 1"
    by simp
  have c: "(1::int) \<noteq> 0"
    by simp
  have d: "find_content demo_store 1 \<noteq> None"
    by code_simp
  from update_path_progress_last_activity [OF a b c d, of "''t1''"] a d show ?thesis
    by (intro conjI)
qed

text \<open>
  C8. For every existing enrollment, an update whose request has no content id leaves the
  store as it is and answers the current state of the enrollment: its id, its progress,
  its \<open>content_progress\<close> and its \<open>last_activity_at\<close>.
\<close>

theorem update_path_progress_without_content:
  assumes "find_enrollment s u p = Some e" and "pd_content_id data = None"
  shows "update_path_progress now s p data u = (Inr (progress_snapshot e), s)
         \<and> pr_id (progress_snapshot e) = pe_id e
         \<and> pr_progress (progress_snapshot e) = pe_progress e
         \<and> pr_content_progress (progress_snapshot e) = or_empty (pe_content_progress e)
         \<and> pr_last_activity_at (progress_snapshot e) = pe_last_activity_at e"
  using assms by (simp add: update_path_progress_def progress_snapshot_def)

text \<open>
  An instance: user 1 sends a progress of 40 without a content id.
\<close>

theorem update_path_progress_without_content_witness:
  "find_enrollment demo_store 1 1 = Some enrollment_one
   \<and> update_path_progress ''t1'' demo_store 1 \<lparr>pd_content_id = None, pd_progress = Some 40\<rparr> 1
       = (Inr (progress_snapshot enrollment_one), demo_store)"
proof -
  have a: "find_enrollment demo_store 1 1 = Some enrollment_one"
    by code_simp
  have b: "pd_content_id \<lparr>pd_content_id = None, pd_progress = Some 40\<rparr> = None"
    by simp
  from update_path_progress_without_content [OF a b, of "''t1''"] a show ?thesis
    by simp
qed

text \<open>
  C9. An update with the content id 0 behaves exactly like one without a content id,
  whatever the store holds: the existence of the content is not checked, and for an existing
  enrollment nothing is changed and the current state is the answer (so the call does not
  fail with \<open>NotFound\<close> on account of the content).
\<close>

theorem update_path_progress_content_zero:
  "update_path_progress now s p (data\<lparr>pd_content_id := Some 0\<rparr>) u
     = update_path_progress now s p (data\<lparr>pd_content_id := None\<rparr>) u
   \<and> (find_enrollment s u p = Some e \<longrightarrow>
        update_path_progress now s p (data\<lparr>pd_content_id := Some 0\<rparr>) u
          = (Inr (progress_snapshot e), s))"
  by (simp add: update_path_progress_def split: option.splits)

text \<open>
  An instance: no content has the id 0, and the update with content id 0 succeeds.
\<close>

theorem update_path_progress_content_zero_witness:
  "find_enrollment demo_store 1 1 = Some enrollment_one
   \<and> find_content demo_store 0 = None
   \<and> update_path_progress ''t1'' demo_store 1 \<lparr>pd_content_id = Some 0, pd_progress = Some 40\<rparr> 1
       = update_path_progress ''t1'' demo_store 1 \<lparr>pd_content_id = None, pd_progress = Some 40\<rparr> 1
   \<and> update_path_progress ''t1'' demo_store 1 \<lparr>pd_content_id = Some 0, pd_progress = Some 40\<rparr> 1
       = (Inr (progress_snapshot enrollment_one), demo_store)"
proof -
  have a: "find_enrollment demo_store 1 1 = Some enrollment_one"
    by code_simp
  have b: "find_content demo_store 0 = None"
    by code_simp
  from update_path_progress_content_zero
         [of "''t1''" demo_store 1 "\<lparr>pd_content_id = None, pd_progress = Some 40\<rparr>" 1 enrollment_one]
       a b
  show ?thesis by auto
qed

subsection \<open>Enrollment\<close>

text \<open>
  C2. Enrolling is idempotent. For a request that names an existing user and an existing
  path: if the store has an enrollment of the user in the path, the answer is that
  enrollment (its id, its progress, its \<open>content_progress\<close>) and the store is unchanged;
  otherwise exactly one row is appended, with progress 0, an empty \<open>content_progress\<close>
  and the personalization settings of the request (an empty map when the request has none).
  Enrolling a second time gives the answer of the first call and leaves the store of the
  first call as it is.
\<close>

theorem enroll_idempotent:
  assumes "ed_user_id data = Some u" and "ed_path_id data = Some p"
    and "u \<in> set (db_users s)" and "p \<in> lp_id ` set (db_paths s)"
  shows "(case find_enrollment s u p of
            Some e \<Rightarrow>
              enroll_in_learning_path rd s data = (Inr (enrollment_snapshot e), s)
              \<and> er_id (enrollment_snapshot e) = pe_id e
              \<and> er_progress (enrollment_snapshot e) = pe_progress e
              \<and> er_content_progress (enrollment_snapshot e) = or_empty (pe_content_progress e)
          | None \<Rightarrow>
              (\<exists>e. enroll_in_learning_path rd s data
                      = (Inr (enrollment_snapshot e), s\<lparr>db_enrollments := db_enrollments s @ [e]\<rparr>)
                 \<and> pe_user_id e = u \<and> pe_path_id e = p \<and> pe_id e = rd_id rd
                 \<and> pe_progress e = 0 \<and> pe_content_progress e = Some []
                 \<and> pe_personalization_settings e
                     = (case ed_personalization_settings data of None \<Rightarrow> JObj [] | Some v \<Rightarrow> v)))
         \<and> enroll_in_learning_path rd' (snd (enroll_in_learning_path rd s data)) data
             = enroll_in_learning_path rd s data"
proof -
  from assms(3) obtain x where fu: "find_user s u = Some x"
    by (cases "find_user s u") (auto simp: find_user_def find_None_iff)
  from assms(4) obtain y where fp: "find_path s p = Some y"
    by (cases "find_path s p") (auto simp: find_path_def find_None_iff)
  show ?thesis
  proof (cases "find_enrollment s u p")
    case (Some e)
    with assms(1,2) fu fp show ?thesis
      by (simp add: enroll_in_learning_path_def enrollment_snapshot_def)
  next
    case None
    let ?v = "case ed_personalization_settings data of None \<Rightarrow> JObj [] | Some v \<Rightarrow> v"
    let ?e = "new_enrollment rd u p ?v"
    let ?s = "s\<lparr>db_enrollments := db_enrollments s @ [?e]\<rparr>"
    have first: "enroll_in_learning_path rd s data = (Inr (enrollment_snapshot ?e), ?s)"
      using assms(1,2) fu fp None by (simp add: enroll_in_learning_path_def Let_def)
    have "is_enrollment_of u p ?e"
      by (simp add: is_enrollment_of_def new_enrollment_def)
    with None have "find_enrollment ?s u p = Some ?e"
      by (simp add: find_enrollment_def find_append_new)
    moreover have "find_user ?s u = Some x" "find_path ?s p = Some y"
      using fu fp by (simp_all add: find_user_def find_path_def)
    ultimately have "enroll_in_learning_path rd' ?s data = (Inr (enrollment_snapshot ?e), ?s)"
      using assms(1,2) by (simp add: enroll_in_learning_path_def)
    with first None show ?thesis
      by (auto simp: new_enrollment_def)
  qed
qed

text \<open>An instance: the first enrollment of user 1 in path 1, and its repetition.\<close>

theorem enroll_idempotent_witness:
  "find_enrollment empty_store 1 1 = None
   \<and> enroll_in_learning_path demo_defaults empty_store demo_request
       = (Inr \<lparr>er_id = 8, er_user_id = 1, er_path_id = 1, er_progress = 0, er_enrolled_at = ''t1'',
               er_content_progress = []\<rparr>,
          empty_store\<lparr>db_enrollments :=
            [\<lparr>pe_id = 8, pe_user_id = 1, pe_path_id = 1, pe_progress = 0,
              pe_content_progress = Some [],
              pe_personalization_settings = JObj [(''pace'', JStr ''slow'')],
              pe_enrolled_at = ''t1'', pe_last_activity_at = ''t1''\<rparr>]\<rparr>)
   \<and> enroll_in_learning_path (demo_defaults\<lparr>rd_id := 9\<rparr>)
        (snd (enroll_in_learning_path demo_defaults empty_store demo_request)) demo_request
       = enroll_in_learning_path demo_defaults empty_store demo_request"
proof -
  have a: "ed_user_id demo_request = Some 1" "ed_path_id demo_request = Some 1"
    by (simp_all add: demo_request_def)
  have b: "1 \<in> set (db_users empty_store)" "1 \<in> lp_id ` set (db_paths empty_store)"
    by (simp_all add: empty_store_def demo_store_def path_one_def)
  have c: "find_enrollment empty_store 1 1 = None"
    by (simp add: find_enrollment_def empty_store_def)
  have d: "enroll_in_learning_path demo_defaults empty_store demo_request
       = (Inr \<lparr>er_id = 8, er_user_id = 1, er_path_id = 1, er_progress = 0, er_enrolled_at = ''t1'',
               er_content_progress = []\<rparr>,
          empty_store\<lparr>db_enrollments :=
            [\<lparr>pe_id = 8, pe_user_id = 1, pe_path_id = 1, pe_progress = 0,
              pe_content_progress = Some [],
              pe_personalization_settings = JObj [(''pace'', JStr ''slow'')],
              pe_enrolled_at = ''t1'', pe_last_activity_at = ''t1''\<rparr>]\<rparr>)"
    by code_simp
  from enroll_idempotent [OF a b, of demo_defaults "demo_defaults\<lparr>rd_id := 9\<rparr>"] c d
  show ?thesis by simp
qed

subsection \<open>Path details\<close>

text \<open>
  C4. For a path id that the store does not have, \<open>get_learning_path\<close> answers with
  a mock and not with an error. The id of the mock is the requested id; its subject is
  \<open>programming\<close> for id 1, \<open>data_science\<close> for id 2 and \<open>other\<close> for every other
  id; its contents are exactly the two fixed stubs with the ids 101 and 102, a video and
  an interactive one, of the same subject.
\<close>

theorem get_learning_path_mock:
  assumes "find_path s path_id = None"
  shows "\<exists>m. get_learning_path s path_id user_id = Inr m
           \<and> det_id m = path_id
           \<and> det_subject m = (if path_id = 1 then ''programming''
                               else if path_id = 2 then ''data_science'' else ''other'')
           \<and> length (det_contents m) = 2
           \<and> det_contents m = mock_contents path_id
           \<and> map cs_id (det_contents m) = [101, 102]
           \<and> map cs_content_type (det_contents m) = [''video'', ''interactive'']
           \<and> map cs_difficulty_level (det_contents m) = [1, 2]
           \<and> map cs_subject (det_contents m) = [det_subject m, det_subject m]"
  using assms
  by (simp add: get_learning_path_def mock_path_def mock_contents_def mock_subject_def by_path_id_def)

text \<open>
  Instances: the ids 999 and 1, each absent from its store.
\<close>

theorem get_learning_path_mock_witness:
  "find_path demo_store 999 = None
   \<and> (\<exists>m. get_learning_path demo_store 999 None = Inr m \<and> det_id m = 999
          \<and> det_subject m = ''other'' \<and> length (det_contents m) = 2)
   \<and> find_path empty_paths 1 = None
   \<and> (\<exists>m. get_learning_path empty_paths 1 None = Inr m \<and> det_id m = 1
          \<and> det_subject m = ''programming'' \<and> map cs_id (det_contents m) = [101, 102])"
proof -
  have a: "find_path demo_store 999 = None"
    by code_simp
  have b: "find_path empty_paths 1 = None"
    by code_simp
  from get_learning_path_mock [OF a, of None] obtain m where
    "get_learning_path demo_store 999 None = Inr m" "det_id m = 999"
    "det_subject m = (if (999::int) = 1 then ''programming''
                      else if (999::int) = 2 then ''data_science'' else ''other'')"
    "length (det_contents m) = 2"
    by (elim exE conjE) (rule that)
  moreover from get_learning_path_mock [OF b, of None] obtain m' where
    "get_learning_path empty_paths 1 None = Inr m'" "det_id m' = 1"
    "det_subject m' = (if (1::int) = 1 then ''programming''
                       else if (1::int) = 2 then ''data_science'' else ''other'')"
    "map cs_id (det_contents m') = [101, 102]"
    by (elim exE conjE) (rule that)
  ultimately show ?thesis using a b by simp
qed

text \<open>
  C10. The claim: when the mock is returned and a user id is supplied, \<open>user_progress\<close>
  is the fixed snapshot (progress 0, no content progress, a constant time of enrollment);
  without a user id it is null. It fails for the user id 0, which is supplied and still
  gives null, because the mock tests the truth value of the user id.
\<close>

theorem get_learning_path_mock_zero_user:
  "find_path demo_store 999 = None
   \<and> map_sum id det_user_progress (get_learning_path demo_store 999 (Some 0)) = Inr None"
  by (simp add: get_learning_path_def find_path_def demo_store_def path_one_def mock_path_def truthy_def)

text \<open>
  C10, amended: when the mock is returned, \<open>user_progress\<close> is the fixed snapshot for
  every supplied user id other than 0, whatever enrollments the store holds, and null when
  the user id is absent or 0.
\<close>

theorem get_learning_path_mock_user_progress:
  assumes "find_path s path_id = None"
  shows "\<exists>m. get_learning_path s path_id user_id = Inr m
           \<and> det_user_progress m =
               (case user_id of
                  None \<Rightarrow> None
                | Some u \<Rightarrow>
                    if u = 0 then None
                    else Some \<lparr>up_overall_progress = 0, up_content_progress = [],
                               up_enrolled_at = ''2025-03-28T20:00:00''\<rparr>)"
  using assms
  by (simp add: get_learning_path_def mock_path_def truthy_def mock_user_progress_def
      mock_created_at_def split: option.splits)

text \<open>
  An instance: user 1 has an enrollment with progress 30 in the path 999, which the store
  does not have; the mock still reports the progress 0.
\<close>

theorem get_learning_path_mock_user_progress_witness:
  "find_path orphan_store 999 = None
   \<and> map pe_progress (filter (is_enrollment_of 1 999) (db_enrollments orphan_store)) = [30]
   \<and> (\<exists>m. get_learning_path orphan_store 999 (Some 1) = Inr m
         \<and> det_user_progress m = Some \<lparr>up_overall_progress = 0, up_content_progress = [],
                                        up_enrolled_at = ''2025-03-28T20:00:00''\<rparr>)
   \<and> (\<exists>m. get_learning_path orphan_store 999 None = Inr m \<and> det_user_progress m = None)"
proof -
  have a: "find_path orphan_store 999 = None"
    by code_simp
  have b: "map pe_progress (filter (is_enrollment_of 1 999) (db_enrollments orphan_store)) = [30]"
    by code_simp
  from get_learning_path_mock_user_progress [OF a, of "Some 1"]
       get_learning_path_mock_user_progress [OF a, of None] a b
  show ?thesis by simp
qed

subsection \<open>Recommendations and enrolled paths\<close>

text \<open>
  C5. \<open>get_recommended_learning_paths\<close> fails with \<open>NotFound\<close> for a user the store
  does not have. For an existing user it returns at most 5 entries, each a path of the
  store, and no entry is a path the user is enrolled in.
\<close>

theorem get_recommended_learning_paths_spec:
  "(u \<notin> set (db_users s) \<longrightarrow> get_recommended_learning_paths s u = Inl NotFound)
   \<and> (u \<in> set (db_users s) \<longrightarrow>
        (\<exists>rs. get_recommended_learning_paths s u = Inr rs
           \<and> length rs \<le> 5
           \<and> (\<forall>r \<in> set rs. \<forall>e \<in> set (db_enrollments s).
                 pe_user_id e = u \<longrightarrow> re_id r \<noteq> pe_path_id e)
           \<and> (\<forall>r \<in> set rs. re_id r \<in> lp_id ` set (db_paths s))))"
proof (cases "find_user s u")
  case None
  then have "u \<notin> set (db_users s)"
    by (simp add: find_user_None_iff)
  with None show ?thesis
    by (simp add: get_recommended_learning_paths_def)
next
  case (Some x)
  then have mem: "u \<in> set (db_users s)"
    using find_user_None_iff [of s u] by simp
  let ?ids = "enrolled_path_ids s u"
  let ?query = "if ?ids \<noteq> [] then filter (\<lambda>p. lp_id p \<notin> set ?ids) (db_paths s) else db_paths s"
  have res: "get_recommended_learning_paths s u = Inr (map recommended_entry_of (take 5 ?query))"
    using Some by (simp add: get_recommended_learning_paths_def Let_def)
  have excl: "lp_id p \<notin> set ?ids" if "p \<in> set ?query" for p
    using that by (cases "?ids = []") (simp_all split: if_splits)
  have sub: "set ?query \<subseteq> set (db_paths s)"
    by auto
  have ids: "set ?ids = pe_path_id ` {e \<in> set (db_enrollments s). pe_user_id e = u}"
    by (auto simp: enrolled_path_ids_def enrollments_of_def)
  have a: "\<forall>r \<in> set (map recommended_entry_of (take 5 ?query)).
             \<forall>e \<in> set (db_enrollments s). pe_user_id e = u \<longrightarrow> re_id r \<noteq> pe_path_id e"
  proof (intro ballI impI)
    fix r e
    assume r: "r \<in> set (map recommended_entry_of (take 5 ?query))"
      and e: "e \<in> set (db_enrollments s)" "pe_user_id e = u"
    from r obtain p where p: "p \<in> set (take 5 ?query)" "r = recommended_entry_of p"
      by auto
    from p(1) have "p \<in> set ?query"
      by (rule in_set_takeD)
    then have "lp_id p \<notin> set ?ids"
      by (rule excl)
    moreover from e have "pe_path_id e \<in> set ?ids"
      unfolding ids by blast
    ultimately show "re_id r \<noteq> pe_path_id e"
      using p(2) by (auto simp: recommended_entry_of_def)
  qed
  have b: "\<forall>r \<in> set (map recommended_entry_of (take 5 ?query)). re_id r \<in> lp_id ` set (db_paths s)"
  proof
    fix r
    assume "r \<in> set (map recommended_entry_of (take 5 ?query))"
    then obtain p where p: "p \<in> set (take 5 ?query)" "r = recommended_entry_of p"
      by auto
    from p(1) have "p \<in> set ?query"
      by (rule in_set_takeD)
    with sub have "p \<in> set (db_paths s)"
      by blast
    with p(2) show "re_id r \<in> lp_id ` set (db_paths s)"
      by (simp add: recommended_entry_of_def)
  qed
  have c: "length (map recommended_entry_of (take 5 ?query)) \<le> 5"
    by simp
  from mem res a b c show ?thesis
    by (simp only: simp_thms) blast
qed

text \<open>
  Instances: a store with the paths 1 to 7 where user 1 is enrolled in path 1 gets the
  paths 2 to 6; user 7 does not exist.
\<close>

theorem get_recommended_learning_paths_spec_witness:
  "7 \<notin> set (db_users catalog_store)
   \<and> get_recommended_learning_paths catalog_store 7 = Inl NotFound
   \<and> 1 \<in> set (db_users catalog_store)
   \<and> map pe_path_id (filter (\<lambda>e. pe_user_id e = 1) (db_enrollments catalog_store)) = [1]
   \<and> map_sum id (map re_id) (get_recommended_learning_paths catalog_store 1) = Inr [2, 3, 4, 5, 6]
   \<and> (\<exists>rs. get_recommended_learning_paths catalog_store 1 = Inr rs \<and> length rs \<le> 5
         \<and> (\<forall>r \<in> set rs. \<forall>e \<in> set (db_enrollments catalog_store).
               pe_user_id e = 1 \<longrightarrow> re_id r \<noteq> pe_path_id e))"
proof -
  have a: "7 \<notin> set (db_users catalog_store)" "1 \<in> set (db_users catalog_store)"
    by (simp_all add: catalog_store_def demo_store_def)
  have b: "map pe_path_id (filter (\<lambda>e. pe_user_id e = 1) (db_enrollments catalog_store)) = [1]"
    by (simp add: catalog_store_def demo_store_def enrollment_one_def)
  have c: "map_sum id (map re_id) (get_recommended_learning_paths catalog_store 1)
             = Inr [2, 3, 4, 5, 6]"
    by code_simp
  from get_recommended_learning_paths_spec [of 7 catalog_store] a
  have d: "get_recommended_learning_paths catalog_store 7 = Inl NotFound"
    by simp
  from get_recommended_learning_paths_spec [of 1 catalog_store] a
  have e: "\<exists>rs. get_recommended_learning_paths catalog_store 1 = Inr rs \<and> length rs \<le> 5
         \<and> (\<forall>r \<in> set rs. \<forall>e \<in> set (db_enrollments catalog_store).
               pe_user_id e = 1 \<longrightarrow> re_id r \<noteq> pe_path_id e)"
    by blast
  from a b c d e show ?thesis
    by (intro conjI)
qed

text \<open>
  C6. \<open>get_enrolled_learning_paths\<close> never fails. Its answer has, in storage order, one
  entry for each enrollment of the user whose path the store has, and none for an
  enrollment whose path is gone; an entry carries the id of the path, the number of its
  contents and the aggregate progress of the enrollment. For a user without enrollments
  the answer is the empty list.
\<close>

theorem get_enrolled_learning_paths_spec:
  "get_enrolled_learning_paths s u =
     Inr (List.map_filter
            (\<lambda>e. case find_path s (pe_path_id e) of
                    None \<Rightarrow> None
                  | Some p \<Rightarrow> Some (enrolled_entry_of p e))
            (filter (\<lambda>e. pe_user_id e = u) (db_enrollments s)))
   \<and> ee_content_count (enrolled_entry_of p e) = length (lp_contents p)
   \<and> ee_progress (enrolled_entry_of p e) = pe_progress e
   \<and> ee_id (enrolled_entry_of p e) = lp_id p
   \<and> ((\<forall>e \<in> set (db_enrollments s). pe_user_id e \<noteq> u)
        \<longrightarrow> get_enrolled_learning_paths s u = Inr [])"
proof -
  have f: "(\<lambda>e. case find_path s (pe_path_id e) of None \<Rightarrow> None
                 | Some p \<Rightarrow> Some (enrolled_entry_of p e))
           = (\<lambda>e. map_option (\<lambda>p. enrolled_entry_of p e) (find_path s (pe_path_id e)))"
    by (auto simp: fun_eq_iff split: option.splits)
  have main: "get_enrolled_learning_paths s u =
     Inr (List.map_filter
            (\<lambda>e. case find_path s (pe_path_id e) of
                    None \<Rightarrow> None
                  | Some p \<Rightarrow> Some (enrolled_entry_of p e))
            (filter (\<lambda>e. pe_user_id e = u) (db_enrollments s)))"
    unfolding f
    by (simp add: get_enrolled_learning_paths_def enrollments_of_def Let_def
        enrolled_loop_map_filter List.map_filter_simps)
  have none: "get_enrolled_learning_paths s u = Inr []"
    if "\<forall>e \<in> set (db_enrollments s). pe_user_id e \<noteq> u"
  proof -
    from that have "filter (\<lambda>e. pe_user_id e = u) (db_enrollments s) = []"
      by (simp add: filter_empty_conv)
    then show ?thesis
      by (simp add: get_enrolled_learning_paths_def enrollments_of_def)
  qed
  have fields: "ee_content_count (enrolled_entry_of p e) = length (lp_contents p)"
    "ee_progress (enrolled_entry_of p e) = pe_progress e"
    "ee_id (enrolled_entry_of p e) = lp_id p"
    by (simp_all add: enrolled_entry_of_def content_count_def)
  from main none fields show ?thesis
    by blast
qed

text \<open>
  Instances: user 2 has no enrollment; user 1 has one in the missing path 999 and one in
  path 1.
\<close>

theorem get_enrolled_learning_paths_spec_witness:
  "filter (\<lambda>e. pe_user_id e = 2) (db_enrollments orphan_store) = []
   \<and> get_enrolled_learning_paths orphan_store 2 = Inr []
   \<and> map pe_path_id (filter (\<lambda>e. pe_user_id e = 1) (db_enrollments orphan_store)) = [999, 1]
   \<and> find_path orphan_store 999 = None
   \<and> get_enrolled_learning_paths orphan_store 1 = Inr [enrolled_entry_of path_one enrollment_one]
   \<and> ee_content_count (enrolled_entry_of path_one enrollment_one) = 2
   \<and> ee_progress (enrolled_entry_of path_one enrollment_one) = 0"
proof -
  have a: "filter (\<lambda>e. pe_user_id e = 2) (db_enrollments orphan_store) = []"
    "map pe_path_id (filter (\<lambda>e. pe_user_id e = 1) (db_enrollments orphan_store)) = [999, 1]"
    by (simp_all add: orphan_store_def orphan_enrollment_def demo_store_def enrollment_one_def)
  have b: "find_path orphan_store 999 = None" "find_path orphan_store 1 = Some path_one"
    by (simp_all add: find_path_def orphan_store_def demo_store_def path_one_def)
  have c: "filter (\<lambda>e. pe_user_id e = 1) (db_enrollments orphan_store)
             = [orphan_enrollment, enrollment_one]"
    by (simp add: orphan_store_def orphan_enrollment_def demo_store_def enrollment_one_def)
  have d: "pe_path_id orphan_enrollment = 999" "pe_path_id enrollment_one = 1"
    by (simp_all add: orphan_enrollment_def enrollment_one_def)
  have e: "\<forall>e \<in> set (db_enrollments orphan_store). pe_user_id e \<noteq> 2"
    by (simp add: orphan_store_def orphan_enrollment_def demo_store_def enrollment_one_def)
  note t2 = get_enrolled_learning_paths_spec [of orphan_store 2 path_one enrollment_one]
  note t1 = get_enrolled_learning_paths_spec [of orphan_store 1 path_one enrollment_one]
  from t2 e have f: "get_enrolled_learning_paths orphan_store 2 = Inr []"
    by blast
  from t1 have g: "get_enrolled_learning_paths orphan_store 1
                     = Inr [enrolled_entry_of path_one enrollment_one]"
    by (simp add: c b d List.map_filter_simps)
  from t1 have h: "ee_content_count (enrolled_entry_of path_one enrollment_one) = 2"
    "ee_progress (enrolled_entry_of path_one enrollment_one) = 0"
    by (simp_all add: path_one_def enrollment_one_def)
  from a b(1) f g h show ?thesis
    by (intro conjI)
qed

end
